theory Spec2Isabelle
  imports Main "HOL-Library.Log_Nat"
begin

section \<open>JavaScript values\<close>

text \<open>
  A JavaScript Number is an IEEE double. \<open>Finite r\<close> is the double whose value is the
  real \<open>r\<close> (\<open>Finite 0\<close> is \<open>+0\<close>), \<open>NegZero\<close> is \<open>-0\<close>.
\<close>

datatype jsnum = NaN | PosInfinity | NegInfinity | NegZero | Finite real

text \<open>
  Objects are referred to by reference. \<open>Decl r\<close> is a reference to a ClassDeclaration
  object, \<open>Obj r\<close> a reference to any other object this module never looks into (a
  ModelManager, a Moment), and \<open>Method n\<close> is the function found under the name \<open>n\<close>
  on the prototype chain of an instance. Arrays are held by value: the claims below do not
  depend on two slots sharing one array.
\<close>

type_synonym ref = nat

datatype jsval =
    Undefined
  | Null
  | Bool bool
  | Num jsnum
  | Str string
  | Arr "jsval list"
  | Decl ref
  | Obj ref
  | Method string

text \<open>ToBoolean: the falsy values are undefined, null, false, +0, -0, NaN and the empty string.\<close>

fun truthy :: "jsval \<Rightarrow> bool" where
  "truthy Undefined = False"
| "truthy Null = False"
| "truthy (Bool b) = b"
| "truthy (Num NaN) = False"
| "truthy (Num NegZero) = False"
| "truthy (Num (Finite r)) = (r \<noteq> 0)"
| "truthy (Num PosInfinity) = True"
| "truthy (Num NegInfinity) = True"
| "truthy (Str s) = (s \<noteq> [])"
| "truthy (Arr xs) = True"
| "truthy (Decl r) = True"
| "truthy (Obj r) = True"
| "truthy (Method n) = True"

text \<open>
  Source positions are produced by the parser and only passed along here. An
  IllegalModelException is recorded with the arguments its constructor receives: the
  message, the model file and the file location (\<open>None\<close> when no third argument is
  passed).
\<close>

datatype location = Location (line: nat) (column: nat)

datatype error =
    Error string
  | TypeError string
  | IllegalModelException (message: string) (modelFile: jsval) (fileLocation: "location option")

subsection \<open>The built-in parseInt\<close>

text \<open>
  \<open>parseInt(string)\<close> with no radix, after ECMA-262: skip leading white space, read an
  optional sign, switch to radix 16 after \<open>0x\<close> or \<open>0X\<close>, take the longest prefix of
  digits, and return NaN when that prefix is empty, else the double nearest to the signed
  integer read. A \<open>char\<close> stands for a code unit below 256, so the white space of the
  model is tab, line feed, vertical tab, form feed, carriage return, space and the
  no-break space. \<open>roundToDouble\<close> rounds an integer to the nearest double, ties to the
  even significand, overflowing to an infinity from \<open>2 ^ 1024\<close> on. (ECMA-262 lets an
  implementation approximate a decimal numeral past its twentieth significant digit; the
  model reads every digit.)
\<close>

definition isWhiteSpace :: "char \<Rightarrow> bool" where
  "isWhiteSpace c = ((of_char c :: nat) \<in> {9, 10, 11, 12, 13, 32, 160})"

definition digitValue :: "char \<Rightarrow> nat option" where
  "digitValue c =
     (let n = (of_char c :: nat) in
      if 48 \<le> n \<and> n \<le> 57 then Some (n - 48)
      else if 97 \<le> n \<and> n \<le> 122 then Some (n - 87)
      else if 65 \<le> n \<and> n \<le> 90 then Some (n - 55)
      else None)"

definition isRadixDigit :: "nat \<Rightarrow> char \<Rightarrow> bool" where
  "isRadixDigit R c = (case digitValue c of Some d \<Rightarrow> d < R | None \<Rightarrow> False)"

definition roundToDouble :: "int \<Rightarrow> jsnum" where
  "roundToDouble i =
     (let a = \<bar>i\<bar>; e = bitlen a - 53 in
      if e \<le> 0 then Finite (of_int i)
      else
        let q = a div 2 ^ nat e;
            r = a mod 2 ^ nat e;
            half = 2 ^ nat (e - 1);
            q' = (if half < r \<or> (r = half \<and> odd q) then q + 1 else q);
            m = q' * 2 ^ nat e
        in if 2 ^ 1024 \<le> m then (if i < 0 then NegInfinity else PosInfinity)
           else Finite (of_int (if i < 0 then - m else m)))"

definition parseInt :: "string \<Rightarrow> jsnum" where
  "parseInt inputString =
     (let S = dropWhile isWhiteSpace inputString;
          sign = (if S \<noteq> [] \<and> hd S = CHR ''-'' then - 1 else 1 :: int);
          S1 = (if S \<noteq> [] \<and> (hd S = CHR ''+'' \<or> hd S = CHR ''-'') then tl S else S);
          hex = (take 2 S1 = ''0x'' \<or> take 2 S1 = ''0X'');
          R = (if hex then 16 else 10 :: nat);
          S2 = (if hex then drop 2 S1 else S1);
          Z = takeWhile (isRadixDigit R) S2
      in if Z = [] then NaN
         else
           let mathInt = foldl (\<lambda>acc c. case digitValue c of
                                            Some d \<Rightarrow> acc * int R + int d
                                          | None \<Rightarrow> acc) 0 Z
           in if mathInt = 0 then (if sign = - 1 then NegZero else Finite 0)
              else roundToDouble (sign * mathInt))"

section \<open>model/typed.js: class Typed\<close>

text \<open>
  An instance is a JavaScript object: a finite map from the names of its own properties to
  values. The constructor stores its bookkeeping under the names \<open>$modelManager\<close>,
  \<open>$classDeclaration\<close>, \<open>$namespace\<close> and \<open>$type\<close> in that same map; user properties
  live beside them.

  A read \<open>this[name]\<close> that finds no own property continues on the prototype chain. The
  class is abstract and its subclasses are not part of the sources at hand, so the set of
  names that the prototype chain defines (the methods of Typed, of its subclasses and of
  Object.prototype) is the parameter \<open>proto\<close>. A write \<open>this[name] = value\<close> creates or
  replaces the own property, for every name but \<open>__proto__\<close>: that name is the accessor
  of Object.prototype, whose setter replaces the prototype of the instance when the value
  is an object or null and does nothing for any other value. The map records a replaced
  prototype under the key \<open>__proto__\<close>; no entry there means that the instance has the
  prototype its class gave it. An instance is extensible and its properties are plain data
  properties, as the constructor leaves them. The methods are named after the source with
  \<open>Typed\<close> in place of the leading underscore.
\<close>

type_synonym typed = "string \<rightharpoonup> jsval"

definition getv :: "string set \<Rightarrow> typed \<Rightarrow> string \<Rightarrow> jsval" where
  "getv proto this propName =
     (case this propName of
        Some v \<Rightarrow> v
      | None \<Rightarrow> if propName \<in> proto then Method propName else Undefined)"

definition Typed :: "jsval \<Rightarrow> jsval \<Rightarrow> jsval \<Rightarrow> jsval \<Rightarrow> typed" where
  "Typed modelManager classDeclaration ns type =
     Map.empty(''$modelManager'' \<mapsto> modelManager,
               ''$classDeclaration'' \<mapsto> classDeclaration,
               ''$namespace'' \<mapsto> ns,
               ''$type'' \<mapsto> type)"

definition Typed_getModelManager :: "string set \<Rightarrow> typed \<Rightarrow> jsval" where
  "Typed_getModelManager proto this = getv proto this ''$modelManager''"

definition Typed_getType :: "string set \<Rightarrow> typed \<Rightarrow> jsval" where
  "Typed_getType proto this = getv proto this ''$type''"

definition Typed_getNamespace :: "string set \<Rightarrow> typed \<Rightarrow> jsval" where
  "Typed_getNamespace proto this = getv proto this ''$namespace''"

definition Typed_getClassDeclaration :: "string set \<Rightarrow> typed \<Rightarrow> jsval" where
  "Typed_getClassDeclaration proto this = getv proto this ''$classDeclaration''"

definition isObject :: "jsval \<Rightarrow> bool" where
  "isObject v =
     (case v of
        Arr xs \<Rightarrow> True
      | Decl r \<Rightarrow> True
      | Obj r \<Rightarrow> True
      | Method n \<Rightarrow> True
      | _ \<Rightarrow> False)"

definition Typed_setPropertyValue :: "typed \<Rightarrow> string \<Rightarrow> jsval \<Rightarrow> typed" where
  "Typed_setPropertyValue this propName v =
     (if propName = ''__proto__'' then
        (if isObject v \<or> v = Null then this(propName \<mapsto> v) else this)
      else this(propName \<mapsto> v))"

text \<open>
  \<open>_addArrayValue\<close>: \<open>push\<close> exists on arrays only, so the call on any other truthy value
  (a string, a number, a method, an object reference) throws a TypeError.
\<close>

definition Typed_addArrayValue :: "string set \<Rightarrow> typed \<Rightarrow> string \<Rightarrow> jsval \<Rightarrow> error + typed" where
  "Typed_addArrayValue proto this propName v =
     (if truthy (getv proto this propName) then
        (case getv proto this propName of
           Arr xs \<Rightarrow> Inr (this(propName \<mapsto> Arr (xs @ [v])))
         | _ \<Rightarrow> Inl (TypeError ''this[propName].push is not a function''))
      else Inr (this(propName \<mapsto> Arr [v])))"

definition Typed_toJSON :: "typed \<Rightarrow> error + jsval" where
  "Typed_toJSON this = Inl (Error ''Use Serializer.toJSON to convert resource instances to JSON objects.'')"

subsection \<open>Class declarations and their properties\<close>

text \<open>
  ClassDeclaration, Field and the other property classes are used by Typed and are not
  among the sources at hand. A property is one of the three property classes;
  \<open>getDefaultValue\<close> is null (\<open>None\<close>) or the text of the default. The three methods of
  ClassDeclaration that Typed calls are parameters, gathered in a record:
  \<open>getSuperTypeDeclaration\<close> returns the linked declaration or null.
\<close>

datatype property =
    Field (getName: string) (getType: string) (getDefaultValue: "string option")
  | RelationshipDeclaration (getName: string) (getType: string)
  | EnumValueDeclaration (getName: string)

record model =
  getFullyQualifiedName :: "ref \<Rightarrow> string"
  getSuperTypeDeclaration :: "ref \<Rightarrow> ref option"
  getProperties :: "ref \<Rightarrow> property list"

text \<open>The test \<open>if (defaultValue)\<close>: null and the empty string are falsy.\<close>

definition truthyDefault :: "string option \<Rightarrow> bool" where
  "truthyDefault defaultValue = (case defaultValue of None \<Rightarrow> False | Some s \<Rightarrow> s \<noteq> [])"

text \<open>
  \<open>_assignFieldDefaults\<close> writes through the call \<open>this._setPropertyValue(...)\<close>, and the
  callee is looked up on the instance that the loop is writing into. An own property named
  \<open>_setPropertyValue\<close> shadows the method: when it holds a function, that function is
  called, and what it does is the parameter \<open>callFunction\<close> (given the name of the
  function, the instance and the two arguments); when it holds anything else, the call
  throws a TypeError. With no such own property the lookup reaches the method of Typed on
  the prototype the class gave the instance; once the prototype has been replaced, by an
  object that has no such method (a Moment, a ModelManager, a ClassDeclaration, an array,
  a function) or by null, the lookup finds nothing and the call throws. A call that throws
  leaves the instance as it is at that moment: the outcome of a call is the instance
  returned, or the error thrown together with the instance.
\<close>

type_synonym outcome = "(error \<times> typed) + typed"

type_synonym callee = "string \<Rightarrow> typed \<Rightarrow> string \<Rightarrow> jsval \<Rightarrow> outcome"

definition call_setPropertyValue :: "callee \<Rightarrow> typed \<Rightarrow> string \<Rightarrow> jsval \<Rightarrow> outcome" where
  "call_setPropertyValue callFunction this propName v =
     (case this ''_setPropertyValue'' of
        None \<Rightarrow>
          if this ''__proto__'' = None then Inr (Typed_setPropertyValue this propName v)
          else Inl (TypeError ''this._setPropertyValue is not a function'', this)
      | Some f \<Rightarrow>
          (case f of
             Method m \<Rightarrow> callFunction m this propName v
           | _ \<Rightarrow> Inl (TypeError ''this._setPropertyValue is not a function'', this)))"

text \<open>The instance after a call, returned or thrown.\<close>

definition instanceAfter :: "outcome \<Rightarrow> typed" where
  "instanceAfter r = (case r of Inl thrown \<Rightarrow> snd thrown | Inr this' \<Rightarrow> this')"

text \<open>
  One round of the loop of \<open>_assignFieldDefaults\<close>. \<open>parseFloat\<close> and
  \<open>Moment.parseZone\<close> are functions of the platform and of the Moment library: they are
  the parameters \<open>parseFloat\<close> and \<open>parseZone\<close>, the latter returning a reference to the
  Moment it creates.
\<close>

definition assignFieldDefault ::
  "callee \<Rightarrow> (string \<Rightarrow> jsnum) \<Rightarrow> (string \<Rightarrow> ref) \<Rightarrow> typed \<Rightarrow> property \<Rightarrow> outcome" where
  "assignFieldDefault callFunction parseFloat parseZone this field =
     (if is_Field field then
        (if truthyDefault (getDefaultValue field) then
           (let defaultValue = the (getDefaultValue field) in
            if getType field = ''String'' then
              call_setPropertyValue callFunction this (getName field) (Str defaultValue)
            else if getType field = ''Integer'' then
              call_setPropertyValue callFunction this (getName field) (Num (parseInt defaultValue))
            else if getType field = ''Long'' then
              call_setPropertyValue callFunction this (getName field) (Num (parseInt defaultValue))
            else if getType field = ''Double'' then
              call_setPropertyValue callFunction this (getName field) (Num (parseFloat defaultValue))
            else if getType field = ''Boolean'' then
              call_setPropertyValue callFunction this (getName field) (Bool (defaultValue = ''true''))
            else if getType field = ''DateTime'' then
              call_setPropertyValue callFunction this (getName field) (Obj (parseZone defaultValue))
            else
              call_setPropertyValue callFunction this (getName field) (Str defaultValue))
         else Inr this)
      else Inr this)"

text \<open>
  The loop runs over the properties from index 0 upwards and stops at the first round
  that throws.
\<close>

fun assignFieldDefaultsLoop ::
  "callee \<Rightarrow> (string \<Rightarrow> jsnum) \<Rightarrow> (string \<Rightarrow> ref) \<Rightarrow> typed \<Rightarrow> property list \<Rightarrow> outcome" where
  "assignFieldDefaultsLoop callFunction parseFloat parseZone this [] = Inr this"
| "assignFieldDefaultsLoop callFunction parseFloat parseZone this (field # rest) =
     (case assignFieldDefault callFunction parseFloat parseZone this field of
        Inl thrown \<Rightarrow> Inl thrown
      | Inr this' \<Rightarrow> assignFieldDefaultsLoop callFunction parseFloat parseZone this' rest)"

text \<open>
  \<open>_assignFieldDefaults\<close>. The call of \<open>_getClassDeclaration\<close> that opens it comes before
  every write of the function and is taken to reach the method of Typed. When the slot
  \<open>$classDeclaration\<close> holds anything but a class declaration, the call of
  \<open>getProperties\<close> throws a TypeError.
\<close>

definition Typed_assignFieldDefaults ::
  "callee \<Rightarrow> model \<Rightarrow> (string \<Rightarrow> jsnum) \<Rightarrow> (string \<Rightarrow> ref) \<Rightarrow> string set \<Rightarrow> typed \<Rightarrow> outcome" where
  "Typed_assignFieldDefaults callFunction M parseFloat parseZone proto this =
     (case Typed_getClassDeclaration proto this of
        Decl classDeclaration \<Rightarrow>
          assignFieldDefaultsLoop callFunction parseFloat parseZone this
            (getProperties M classDeclaration)
      | _ \<Rightarrow> Inl (TypeError ''classDeclaration.getProperties is not a function'', this))"

text \<open>
  The loop of \<open>_instanceOf\<close> follows \<open>getSuperTypeDeclaration\<close> until it finds the name
  or reaches null. Nothing in Typed bounds the walk, so the loop is a partial function:
  \<open>None\<close> is a run that never returns. The function writes nothing, and its call of
  \<open>_getClassDeclaration\<close> is taken to reach the method of Typed.
\<close>

partial_function (option) walkSuperTypes :: "model \<Rightarrow> string \<Rightarrow> ref option \<Rightarrow> bool option" where
  "walkSuperTypes M fqt superTypeDeclaration =
     (case superTypeDeclaration of
        None \<Rightarrow> Some False
      | Some d \<Rightarrow>
          if getFullyQualifiedName M d = fqt then Some True
          else walkSuperTypes M fqt (getSuperTypeDeclaration M d))"

definition Typed_instanceOf :: "model \<Rightarrow> string set \<Rightarrow> typed \<Rightarrow> string \<Rightarrow> (error + bool) option" where
  "Typed_instanceOf M proto this fqt =
     (case Typed_getClassDeclaration proto this of
        Decl classDeclaration \<Rightarrow>
          if getFullyQualifiedName M classDeclaration = fqt then Some (Inr True)
          else map_option Inr (walkSuperTypes M fqt (getSuperTypeDeclaration M classDeclaration))
      | _ \<Rightarrow> Some (Inl (TypeError ''classDeclaration.getFullyQualifiedName is not a function'')))"

text \<open>
  The declaration reached from \<open>d\<close> after \<open>n\<close> calls of \<open>getSuperTypeDeclaration\<close>, if
  the chain is that long. It is used to state what \<open>_instanceOf\<close> computes.
\<close>

primrec superTypeChain :: "model \<Rightarrow> nat \<Rightarrow> ref \<Rightarrow> ref option" where
  "superTypeChain M 0 d = Some d"
| "superTypeChain M (Suc n) d =
     (case getSuperTypeDeclaration M d of None \<Rightarrow> None | Some s \<Rightarrow> superTypeChain M n s)"

section \<open>introspect/metamodel.js\<close>

subsection \<open>The syntax tree consumed\<close>

text \<open>
  The parser is not among the sources at hand; the nodes carry what the converter reads.
  A node attribute that holds an object (\<open>id\<close>, \<open>propertyType\<close>, \<open>classExtension\<close>,
  \<open>idField\<close>, \<open>location\<close>) is an option, \<open>None\<close> for undefined or null; the \<open>array\<close>,
  \<open>optional\<close> and \<open>abstract\<close> attributes are only tested for truthiness and may hold any
  value. \<open>c_classExtension\<close> is the identifier \<open>classExtension.class\<close>, \<open>c_body\<close> the list
  \<open>body.declarations\<close>.
\<close>

datatype ast_identifier = Identifier (name: string)

record property_ast =
  p_type :: string
  p_id :: "ast_identifier option"
  p_propertyType :: "ast_identifier option"
  p_array :: jsval
  p_optional :: jsval
  p_location :: "location option"

record declaration_ast =
  c_type :: string
  c_id :: "ast_identifier option"
  c_abstract :: jsval
  c_classExtension :: "ast_identifier option"
  c_idField :: "ast_identifier option"
  c_body :: "property_ast list"
  c_location :: "location option"

record import_ast =
  i_namespace :: string
  i_uri :: "string option"

record model_ast =
  m_namespace :: string
  m_imports :: "import_ast list option"
  m_body :: "declaration_ast list"

subsection \<open>The metamodel produced\<close>

text \<open>
  Each record is one kind of object literal of the converter; the field ending in
  \<open>class\<close> is its \<open>$class\<close> key, and an optional key that the converter may leave out is
  an option.
\<close>

record type_identifier =
  ti_class :: string
  ti_name :: string

record field_mm =
  fm_class :: string
  fm_name :: string
  fm_isArray :: bool
  fm_isOptional :: bool
  fm_type :: "type_identifier option"

record declaration_mm =
  dm_class :: string
  dm_name :: string
  dm_isAbstract :: bool
  dm_superType :: "type_identifier option"
  dm_identifiedByField :: "string option"
  dm_fields :: "field_mm list"

record namespace_import =
  im_class :: string
  im_namespace :: string
  im_uri :: "string option"

record metamodel =
  mm_class :: string
  mm_namespace :: string
  mm_imports :: "namespace_import list option"
  mm_declarations :: "declaration_mm list option"

subsection \<open>The converter\<close>

definition fieldToMetaModel :: "property_ast \<Rightarrow> error + field_mm" where
  "fieldToMetaModel ast =
     (case p_id ast of
        None \<Rightarrow> Inl (TypeError ''Cannot read property name of ast.id'')
      | Some i \<Rightarrow>
          (case p_propertyType ast of
             None \<Rightarrow> Inl (TypeError ''Cannot read property name of ast.propertyType'')
           | Some pt \<Rightarrow>
               (let field = \<lparr> fm_class = [], fm_name = name i,
                              fm_isArray = (if truthy (p_array ast) then True else False),
                              fm_isOptional = (if truthy (p_optional ast) then True else False),
                              fm_type = None \<rparr>;
                    type = name pt
                in Inr
                  (if type = ''Integer'' then
                     field\<lparr> fm_class := ''concerto.metamodel.IntegerFieldDeclaration'' \<rparr>
                   else if type = ''Long'' then
                     field\<lparr> fm_class := ''concerto.metamodel.LongFieldDeclaration'' \<rparr>
                   else if type = ''Double'' then
                     field\<lparr> fm_class := ''concerto.metamodel.DoubleFieldDeclaration'' \<rparr>
                   else if type = ''Boolean'' then
                     field\<lparr> fm_class := ''concerto.metamodel.BooleanFieldDeclaration'' \<rparr>
                   else if type = ''DateTime'' then
                     field\<lparr> fm_class := ''concerto.metamodel.DateTimeFieldDeclaration'' \<rparr>
                   else if type = ''String'' then
                     field\<lparr> fm_class := ''concerto.metamodel.StringFieldDeclaration'' \<rparr>
                   else
                     field\<lparr> fm_class := ''concerto.metamodel.ObjectFieldDeclaration'',
                            fm_type := Some \<lparr> ti_class = ''concerto.metamodel.TypeIdentifier'',
                                              ti_name = type \<rparr> \<rparr>))))"

definition relationshipToMetaModel :: "property_ast \<Rightarrow> error + field_mm" where
  "relationshipToMetaModel ast =
     (case p_propertyType ast of
        None \<Rightarrow> Inl (TypeError ''Cannot read property name of ast.propertyType'')
      | Some pt \<Rightarrow>
          (case p_id ast of
             None \<Rightarrow> Inl (TypeError ''Cannot read property name of ast.id'')
           | Some i \<Rightarrow>
               Inr \<lparr> fm_class = ''concerto.metamodel.RelationshipDeclaration'',
                     fm_name = name i,
                     fm_isArray = (if truthy (p_array ast) then True else False),
                     fm_isOptional = (if truthy (p_optional ast) then True else False),
                     fm_type = Some \<lparr> ti_class = ''concerto.metamodel.TypeIdentifier'',
                                       ti_name = name pt \<rparr> \<rparr>))"

definition enumPropertyToMetaModel :: "property_ast \<Rightarrow> error + field_mm" where
  "enumPropertyToMetaModel ast =
     (case p_id ast of
        None \<Rightarrow> Inl (TypeError ''Cannot read property name of ast.id'')
      | Some i \<Rightarrow>
          Inr \<lparr> fm_class = ''concerto.metamodel.EnumFieldDeclaration'',
                fm_name = name i,
                fm_isArray = False,
                fm_isOptional = False,
                fm_type = None \<rparr>)"

text \<open>
  \<open>declToMetaModel\<close> is a function of the module, in strict mode, and its only call is
  the plain call \<open>declToMetaModel(thing)\<close> in \<open>astToMetaModel\<close>: inside it \<open>this\<close> is
  undefined, the constant \<open>thisValue\<close>. Passed as an argument, \<open>this\<close> is that value.
  The member access \<open>this.modelFile\<close> on it throws a TypeError, the constant
  \<open>this_modelFile\<close>, while the arguments of \<open>new IllegalModelException\<close> are evaluated
  and before the exception exists.
\<close>

definition thisValue :: jsval where
  "thisValue = Undefined"

definition this_modelFile :: "error + jsval" where
  "this_modelFile = Inl (TypeError ''Cannot read property modelFile of undefined'')"

text \<open>The test \<open>thing.id && thing.id.name && thing.id.name.startsWith('$')\<close>.\<close>

definition hasReservedName :: "property_ast \<Rightarrow> bool" where
  "hasReservedName thing =
     (case p_id thing of
        None \<Rightarrow> False
      | Some i \<Rightarrow> name i \<noteq> [] \<and> take 1 (name i) = ''$'')"

text \<open>
  The message formatter of Globalize is the parameter \<open>messageFormatter\<close>: it is given
  the key of the message and the named values to fill in.
\<close>

type_synonym formatter = "string \<Rightarrow> (string \<times> string) list \<Rightarrow> string"

text \<open>The loop over \<open>ast.body.declarations\<close>; \<open>declFields\<close> is \<open>decl.fields\<close> so far.\<close>

fun classFields :: "formatter \<Rightarrow> property_ast list \<Rightarrow> field_mm list \<Rightarrow> error + field_mm list" where
  "classFields messageFormatter [] declFields = Inr declFields"
| "classFields messageFormatter (thing # rest) declFields =
     (if hasReservedName thing then
        (case this_modelFile of
           Inl e \<Rightarrow> Inl e
         | Inr mf \<Rightarrow>
             Inl (IllegalModelException (''Invalid field name '' @ name (the (p_id thing)))
                    mf (p_location thing)))
      else if p_type thing = ''FieldDeclaration'' then
        (case fieldToMetaModel thing of
           Inl e \<Rightarrow> Inl e
         | Inr f \<Rightarrow> classFields messageFormatter rest (declFields @ [f]))
      else if p_type thing = ''RelationshipDeclaration'' then
        (case relationshipToMetaModel thing of
           Inl e \<Rightarrow> Inl e
         | Inr f \<Rightarrow> classFields messageFormatter rest (declFields @ [f]))
      else if p_type thing = ''EnumPropertyDeclaration'' then
        (case enumPropertyToMetaModel thing of
           Inl e \<Rightarrow> Inl e
         | Inr f \<Rightarrow> classFields messageFormatter rest (declFields @ [f]))
      else
        (case this_modelFile of
           Inl e \<Rightarrow> Inl e
         | Inr mf \<Rightarrow>
             Inl (IllegalModelException
                    (messageFormatter ''classdeclaration-process-unrecmodelelem''
                       [(''type'', p_type thing)])
                    mf (p_location thing))))"

text \<open>The chain of comparisons on \<open>ast.type\<close> that opens \<open>declToMetaModel\<close>.\<close>

definition declClass :: "string \<Rightarrow> string option" where
  "declClass type =
     (if type = ''AssetDeclaration'' then Some ''concerto.metamodel.AssetDeclaration''
      else if type = ''TransactionDeclaration'' then Some ''concerto.metamodel.TransactionDeclaration''
      else if type = ''EventDeclaration'' then Some ''concerto.metamodel.EventDeclaration''
      else if type = ''ParticipantDeclaration'' then Some ''concerto.metamodel.ParticipantDeclaration''
      else if type = ''EnumDeclaration'' then Some ''concerto.metamodel.EnumDeclaration''
      else if type = ''ConceptDeclaration'' then Some ''concerto.metamodel.ConceptDeclaration''
      else None)"

definition declToMetaModel :: "formatter \<Rightarrow> declaration_ast \<Rightarrow> error + declaration_mm" where
  "declToMetaModel messageFormatter ast =
     (case declClass (c_type ast) of
        None \<Rightarrow>
          Inl (IllegalModelException
                 (messageFormatter ''modelfile-constructor-unrecmodelelem'' [(''type'', c_type ast)])
                 thisValue None)
      | Some cls \<Rightarrow>
          (case c_id ast of
             None \<Rightarrow> Inl (TypeError ''Cannot read property name of ast.id'')
           | Some i \<Rightarrow>
               (case classFields messageFormatter (c_body ast) [] of
                  Inl e \<Rightarrow> Inl e
                | Inr declFields \<Rightarrow>
                    Inr \<lparr> dm_class = cls,
                          dm_name = name i,
                          dm_isAbstract = (if truthy (c_abstract ast) then True else False),
                          dm_superType =
                            (case c_classExtension ast of
                               None \<Rightarrow> None
                             | Some c \<Rightarrow> Some \<lparr> ti_class = ''concerto.metamodel.TypeIdentifier'',
                                                  ti_name = name c \<rparr>),
                          dm_identifiedByField =
                            (case c_idField ast of None \<Rightarrow> None | Some f \<Rightarrow> Some (name f)),
                          dm_fields = declFields \<rparr>)))"

text \<open>The loop over \<open>ast.body\<close> in \<open>astToMetaModel\<close>.\<close>

fun modelDeclarations ::
  "formatter \<Rightarrow> declaration_ast list \<Rightarrow> declaration_mm list \<Rightarrow> error + declaration_mm list" where
  "modelDeclarations messageFormatter [] declarations = Inr declarations"
| "modelDeclarations messageFormatter (thing # rest) declarations =
     (case declToMetaModel messageFormatter thing of
        Inl e \<Rightarrow> Inl e
      | Inr decl \<Rightarrow> modelDeclarations messageFormatter rest (declarations @ [decl]))"

definition importToMetaModel :: "import_ast \<Rightarrow> namespace_import" where
  "importToMetaModel imp =
     \<lparr> im_class = ''concerto.metamodel.NamespaceImport'',
       im_namespace = i_namespace imp,
       im_uri = (case i_uri imp of
                   None \<Rightarrow> None
                 | Some u \<Rightarrow> if u \<noteq> [] then Some u else None) \<rparr>"

definition astToMetaModel :: "formatter \<Rightarrow> model_ast \<Rightarrow> error + metamodel" where
  "astToMetaModel messageFormatter ast =
     (case modelDeclarations messageFormatter (m_body ast) [] of
        Inl e \<Rightarrow> Inl e
      | Inr declarations \<Rightarrow>
          Inr \<lparr> mm_class = ''concerto.metamodel.ModelFile'',
                mm_namespace = m_namespace ast,
                mm_imports =
                  (case m_imports ast of
                     None \<Rightarrow> None
                   | Some imports \<Rightarrow> Some (map importToMetaModel imports)),
                mm_declarations = (if 0 < length (m_body ast) then Some declarations else None) \<rparr>)"

section \<open>Vocabulary of the statements\<close>

text \<open>
  A property carries a default value when it is a Field whose default passes the test of
  \<open>_assignFieldDefaults\<close>.
\<close>

definition carriesDefault :: "property \<Rightarrow> bool" where
  "carriesDefault p = (is_Field p \<and> truthyDefault (getDefaultValue p))"

text \<open>
  The value that a round of the loop passes to \<open>_setPropertyValue\<close> for a Field that
  carries a default. It abbreviates the lemmas about the loop.
\<close>

definition coercedDefault :: "(string \<Rightarrow> jsnum) \<Rightarrow> (string \<Rightarrow> ref) \<Rightarrow> property \<Rightarrow> jsval" where
  "coercedDefault pf pz f =
     (let s = the (getDefaultValue f) in
      if getType f = ''Integer'' \<or> getType f = ''Long'' then Num (parseInt s)
      else if getType f = ''Double'' then Num (pf s)
      else if getType f = ''Boolean'' then Bool (s = ''true'')
      else if getType f = ''DateTime'' then Obj (pz s)
      else Str s)"

text \<open>The six declaration kinds and the six primitive field types.\<close>

definition recognizedKinds :: "string set" where
  "recognizedKinds = {''AssetDeclaration'', ''TransactionDeclaration'', ''EventDeclaration'',
     ''ParticipantDeclaration'', ''EnumDeclaration'', ''ConceptDeclaration''}"

definition primitiveKinds :: "string set" where
  "primitiveKinds = {''Integer'', ''Long'', ''Double'', ''Boolean'', ''DateTime'', ''String''}"

subsection \<open>Sample inputs\<close>

text \<open>
  A small model: Car extends Vehicle extends Asset, Car declaring an Integer field with the
  default \<open>5\<close>, a String field with no default and a relationship; an instance of Car;
  a second model whose one declaration has a String field named \<open>_setPropertyValue\<close>
  with a default ahead of the Integer field; and the syntax tree of a field and of an asset
  declaration.
\<close>

definition sampleModel :: model where
  "sampleModel =
     \<lparr> getFullyQualifiedName =
         (\<lambda>r. if r = 0 then ''org.acme.Car''
              else if r = 1 then ''org.acme.Vehicle'' else ''org.acme.Asset''),
       getSuperTypeDeclaration =
         (\<lambda>r. if r = 0 then Some 1 else if r = 1 then Some 2 else None),
       getProperties =
         (\<lambda>r. if r = 0
              then [Field ''wheels'' ''Integer'' (Some ''5''),
                    Field ''colour'' ''String'' None,
                    RelationshipDeclaration ''owner'' ''Person'']
              else []) \<rparr>"


definition sampleCar :: typed where
  "sampleCar = Typed (Obj 7) (Decl 0) (Str ''org.acme'') (Str ''Car'')"

definition sampleField :: property_ast where
  "sampleField =
     \<lparr> p_type = ''FieldDeclaration'', p_id = Some (Identifier ''wheels''),
       p_propertyType = Some (Identifier ''Integer''), p_array = Null,
       p_optional = Str ''optional'', p_location = Some (Location 4 3) \<rparr>"

definition sampleDecl :: declaration_ast where
  "sampleDecl =
     \<lparr> c_type = ''AssetDeclaration'', c_id = Some (Identifier ''Car''), c_abstract = Null,
       c_classExtension = Some (Identifier ''Vehicle''), c_idField = Some (Identifier ''vin''),
       c_body = [sampleField], c_location = Some (Location 3 1) \<rparr>"

definition sampleFormatter :: formatter where
  "sampleFormatter key values = key @ concat (map snd values)"

section \<open>Theorems about model/typed.js\<close>

subsection \<open>The bookkeeping slots\<close>

text \<open>
  C7. The generic conversion entry point \<open>_toJSON\<close> fails on every instance, whatever its
  type and property values, with the error whose message sends the caller to
  Serializer.toJSON.
\<close>

theorem toJSON_always_throws:
  "Typed_toJSON this = Inl (Error ''Use Serializer.toJSON to convert resource instances to JSON objects.'')"
  by (simp add: Typed_toJSON_def)

text \<open>
  C10. \<open>_setPropertyValue\<close> writes into the map that also holds the bookkeeping of the
  constructor. The getters read back what the constructor stored; after a call with the
  name \<open>$type\<close>, \<open>$classDeclaration\<close> or \<open>$namespace\<close> on any instance, \<open>_getType\<close>,
  \<open>_getClassDeclaration\<close> or \<open>_getNamespace\<close> returns the value of the caller in place of
  the original binding.
\<close>

theorem setPropertyValue_overwrites_metadata:
  "Typed_getType proto (Typed mm cd ns ty) = ty
   \<and> Typed_getClassDeclaration proto (Typed mm cd ns ty) = cd
   \<and> Typed_getNamespace proto (Typed mm cd ns ty) = ns
   \<and> Typed_getType proto (Typed_setPropertyValue this ''$type'' v) = v
   \<and> Typed_getClassDeclaration proto (Typed_setPropertyValue this ''$classDeclaration'' v) = v
   \<and> Typed_getNamespace proto (Typed_setPropertyValue this ''$namespace'' v) = v"
  by (simp add: Typed_getType_def Typed_getClassDeclaration_def Typed_getNamespace_def
      Typed_setPropertyValue_def Typed_def getv_def)

subsection \<open>Array properties\<close>

text \<open>
  C8. \<open>_addArrayValue\<close> stores the one-element sequence \<open>[v]\<close> when the read of the
  property is falsy, in particular when the instance has no such property and the
  prototype chain defines none; when the property holds a sequence \<open>xs\<close>, it stores
  \<open>xs @ [v]\<close>: the elements of \<open>xs\<close> in their order, then \<open>v\<close>. No other slot changes.
\<close>

theorem addArrayValue_creates_or_appends:
  "(\<not> truthy (getv proto this propName) \<longrightarrow>
      Typed_addArrayValue proto this propName v = Inr (this(propName \<mapsto> Arr [v])))
   \<and> (this propName = None \<and> propName \<notin> proto \<longrightarrow>
      Typed_addArrayValue proto this propName v = Inr (this(propName \<mapsto> Arr [v])))
   \<and> (getv proto this propName = Arr xs \<longrightarrow>
      Typed_addArrayValue proto this propName v = Inr (this(propName \<mapsto> Arr (xs @ [v]))))"
  by (simp add: Typed_addArrayValue_def getv_def)

theorem addArrayValue_witness:
  "Typed_addArrayValue {} sampleCar ''tags'' (Str ''a'') = Inr (sampleCar(''tags'' \<mapsto> Arr [Str ''a'']))
   \<and> Typed_addArrayValue {} (sampleCar(''tags'' \<mapsto> Arr [Str ''a''])) ''tags'' (Str ''b'')
       = Inr (sampleCar(''tags'' \<mapsto> Arr [Str ''a'', Str ''b'']))"
proof -
  have absent: "sampleCar ''tags'' = None \<and> ''tags'' \<notin> ({} :: string set)"
    by (simp add: sampleCar_def Typed_def)
  have holds: "getv {} (sampleCar(''tags'' \<mapsto> Arr [Str ''a''])) ''tags'' = Arr [Str ''a'']"
    by (simp add: getv_def)
  have 1: "Typed_addArrayValue {} sampleCar ''tags'' (Str ''a'') = Inr (sampleCar(''tags'' \<mapsto> Arr [Str ''a'']))"
    using addArrayValue_creates_or_appends [of "{}" sampleCar "''tags''" "Str ''a''"] absent by blast
  have 2: "Typed_addArrayValue {} (sampleCar(''tags'' \<mapsto> Arr [Str ''a''])) ''tags'' (Str ''b'')
       = Inr (sampleCar(''tags'' \<mapsto> Arr ([Str ''a''] @ [Str ''b''])))"
    using addArrayValue_creates_or_appends
      [of "{}" "sampleCar(''tags'' \<mapsto> Arr [Str ''a''])" "''tags''" "Str ''b''" "[Str ''a'']"] holds
    by simp
  show ?thesis using 1 2 by simp
qed

text \<open>
  The claim has nothing to append to when the property holds a truthy value that is no
  sequence (the type name under \<open>$type\<close>, a method of the prototype): the call of
  \<open>push\<close> throws.
\<close>

lemma addArrayValue_not_array:
  "truthy (getv proto this propName) \<Longrightarrow> \<forall>xs. getv proto this propName \<noteq> Arr xs \<Longrightarrow>
   \<exists>m. Typed_addArrayValue proto this propName v = Inl (TypeError m)"
  by (cases "getv proto this propName") (simp_all add: Typed_addArrayValue_def)

subsection \<open>Field defaults\<close>

text \<open>
  A round of the loop either skips the property or calls \<open>_setPropertyValue\<close> with the
  coerced default. While no function sits in the own slot \<open>_setPropertyValue\<close>, the call
  either throws and leaves the instance alone or writes under the name of the property,
  so the loop changes only the slots named by properties that carry a default. On an
  instance whose method is not shadowed and whose prototype is in place, and as long as no
  such property is named \<open>_setPropertyValue\<close> or \<open>__proto__\<close>, every call returns.
\<close>

lemma round_call:
  "carriesDefault f \<Longrightarrow>
   assignFieldDefault cf pf pz this f = call_setPropertyValue cf this (getName f) (coercedDefault pf pz f)"
  by (simp add: assignFieldDefault_def carriesDefault_def coercedDefault_def Let_def)

lemma round_skip: "\<not> carriesDefault f \<Longrightarrow> assignFieldDefault cf pf pz this f = Inr this"
  by (auto simp: assignFieldDefault_def carriesDefault_def)

lemma coercedDefault_no_function: "coercedDefault pf pz f \<noteq> Method m"
  by (simp add: coercedDefault_def Let_def)

lemma call_unshadowed:
  "this ''_setPropertyValue'' = None \<Longrightarrow> this ''__proto__'' = None \<Longrightarrow>
   call_setPropertyValue cf this n v = Inr (Typed_setPropertyValue this n v)"
  by (simp add: call_setPropertyValue_def)

lemma call_without_function:
  "\<forall>m. this ''_setPropertyValue'' \<noteq> Some (Method m) \<Longrightarrow>
   call_setPropertyValue cf this n v = Inl (TypeError ''this._setPropertyValue is not a function'', this)
   \<or> call_setPropertyValue cf this n v = Inr (Typed_setPropertyValue this n v)"
  by (auto simp: call_setPropertyValue_def split: option.splits jsval.splits)

lemma setPropertyValue_other: "n \<noteq> p \<Longrightarrow> Typed_setPropertyValue this n v p = this p"
  by (auto simp: Typed_setPropertyValue_def)

lemma setPropertyValue_no_function:
  "\<forall>m. this p \<noteq> Some (Method m) \<Longrightarrow> \<forall>m. v \<noteq> Method m \<Longrightarrow>
   \<forall>m. Typed_setPropertyValue this n v p \<noteq> Some (Method m)"
  by (auto simp: Typed_setPropertyValue_def)


lemma loop_frame:
  "\<forall>m. this ''_setPropertyValue'' \<noteq> Some (Method m) \<Longrightarrow>
   \<forall>f \<in> set props. \<not> (carriesDefault f \<and> getName f = p) \<Longrightarrow>
   instanceAfter (assignFieldDefaultsLoop cf pf pz this props) p = this p"
proof (induction props arbitrary: this)
  case Nil
  then show ?case by (simp add: instanceAfter_def)
next
  case (Cons f props)
  show ?case
  proof (cases "carriesDefault f")
    case False
    then show ?thesis
      using Cons by (simp add: round_skip)
  next
    case True
    then have name: "getName f \<noteq> p"
      using Cons.prems(2) by auto
    let ?v = "coercedDefault pf pz f"
    let ?this' = "Typed_setPropertyValue this (getName f) ?v"
    consider
      (thrown) "assignFieldDefault cf pf pz this f
                = Inl (TypeError ''this._setPropertyValue is not a function'', this)"
      | (returned) "assignFieldDefault cf pf pz this f = Inr ?this'"
      using call_without_function [of this cf "getName f" ?v] Cons.prems(1)
      by (auto simp: round_call [OF True])
    then show ?thesis
    proof cases
      case thrown
      then show ?thesis by (simp add: instanceAfter_def)
    next
      case returned
      have "\<forall>m. ?this' ''_setPropertyValue'' \<noteq> Some (Method m)"
        using Cons.prems(1) by (simp add: setPropertyValue_no_function coercedDefault_no_function)
      then have "instanceAfter (assignFieldDefaultsLoop cf pf pz ?this' props) p = ?this' p"
        using Cons.IH Cons.prems(2) by simp
      then show ?thesis
        using returned name by (simp add: setPropertyValue_other)
    qed
  qed
qed

lemma loop_returns:
  "this ''_setPropertyValue'' = None \<Longrightarrow> this ''__proto__'' = None \<Longrightarrow>
   \<forall>f \<in> set props. carriesDefault f \<longrightarrow>
      getName f \<noteq> ''_setPropertyValue'' \<and> getName f \<noteq> ''__proto__'' \<Longrightarrow>
   \<exists>this'. assignFieldDefaultsLoop cf pf pz this props = Inr this'
       \<and> this' ''_setPropertyValue'' = None \<and> this' ''__proto__'' = None"
proof (induction props arbitrary: this)
  case Nil
  then show ?case by simp
next
  case (Cons f props)
  show ?case
  proof (cases "carriesDefault f")
    case False
    then show ?thesis
      using Cons by (simp add: round_skip)
  next
    case True
    then have name: "getName f \<noteq> ''_setPropertyValue''" "getName f \<noteq> ''__proto__''"
      using Cons.prems(3) by auto
    let ?this' = "Typed_setPropertyValue this (getName f) (coercedDefault pf pz f)"
    have round: "assignFieldDefault cf pf pz this f = Inr ?this'"
      using Cons.prems(1,2) by (simp add: round_call [OF True] call_unshadowed)
    have "?this' ''_setPropertyValue'' = None" "?this' ''__proto__'' = None"
      using Cons.prems(1,2) name by (simp_all add: setPropertyValue_other)
    then have "\<exists>this'. assignFieldDefaultsLoop cf pf pz ?this' props = Inr this'
       \<and> this' ''_setPropertyValue'' = None \<and> this' ''__proto__'' = None"
      using Cons.IH Cons.prems(3) by simp
    then show ?thesis
      using round by simp
  qed
qed



lemma sampleCar_decl: "Typed_getClassDeclaration {} sampleCar = Decl 0"
  by (simp add: sampleCar_def Typed_getClassDeclaration_def getv_def Typed_def)


lemma assignFieldDefaults_returns:
  assumes cd: "Typed_getClassDeclaration proto this = Decl D"
    and sp: "this ''_setPropertyValue'' = None"
    and pr: "this ''__proto__'' = None"
    and names: "\<forall>f \<in> set (getProperties M D). carriesDefault f \<longrightarrow>
                  getName f \<noteq> ''_setPropertyValue'' \<and> getName f \<noteq> ''__proto__''"
  shows "\<exists>this'. Typed_assignFieldDefaults cf M pf pz proto this = Inr this'"
  using loop_returns [OF sp pr names, of cf pf pz] cd
  by (auto simp: Typed_assignFieldDefaults_def)




text \<open>
  C3. Let \<open>q\<close> be a declared property that carries no default (a Field without one, a
  relationship, an enum member), and let no property that carries a default share its
  name. Then the slot of \<open>q\<close> is after \<open>_assignFieldDefaults\<close> what it was before,
  whether the call returns or throws, on every instance whose own slot
  \<open>_setPropertyValue\<close> holds no function. On an instance fresh from the constructor, where
  the name of \<open>q\<close> does not begin with \<open>$\<close>, the slot is absent afterwards: no zero value
  is stored. On such an instance the call returns when no property that carries a default
  is named \<open>_setPropertyValue\<close> or \<open>__proto__\<close>.
\<close>

theorem assignFieldDefaults_leaves_others_unset:
  assumes q: "q \<in> set (getProperties M D)"
    and nd: "\<not> carriesDefault q"
    and other: "\<forall>f \<in> set (getProperties M D). carriesDefault f \<longrightarrow> getName f \<noteq> getName q"
  shows "(Typed_getClassDeclaration proto this = Decl D
            \<and> (\<forall>m. this ''_setPropertyValue'' \<noteq> Some (Method m)) \<longrightarrow>
          instanceAfter (Typed_assignFieldDefaults cf M pf pz proto this) (getName q)
            = this (getName q))
       \<and> (take 1 (getName q) \<noteq> ''$'' \<longrightarrow>
          instanceAfter (Typed_assignFieldDefaults cf M pf pz proto (Typed mm (Decl D) ns ty))
            (getName q) = None)
       \<and> ((\<forall>f \<in> set (getProperties M D). carriesDefault f \<longrightarrow>
               getName f \<noteq> ''_setPropertyValue'' \<and> getName f \<noteq> ''__proto__'') \<longrightarrow>
          (\<exists>this'. Typed_assignFieldDefaults cf M pf pz proto (Typed mm (Decl D) ns ty) = Inr this'))"
proof -
  have none: "\<forall>f \<in> set (getProperties M D). \<not> (carriesDefault f \<and> getName f = getName q)"
    using other by blast
  have frame: "\<And>this. \<forall>m. this ''_setPropertyValue'' \<noteq> Some (Method m) \<Longrightarrow>
      instanceAfter (assignFieldDefaultsLoop cf pf pz this (getProperties M D)) (getName q)
        = this (getName q)"
    using none by (simp add: loop_frame)
  have general: "Typed_getClassDeclaration proto this = Decl D
            \<and> (\<forall>m. this ''_setPropertyValue'' \<noteq> Some (Method m)) \<longrightarrow>
          instanceAfter (Typed_assignFieldDefaults cf M pf pz proto this) (getName q)
            = this (getName q)"
    by (simp add: Typed_assignFieldDefaults_def frame)
  let ?new = "Typed mm (Decl D) ns ty"
  have new_cd: "Typed_getClassDeclaration proto ?new = Decl D"
    by (simp add: Typed_getClassDeclaration_def getv_def Typed_def)
  have new_sp: "?new ''_setPropertyValue'' = None" and new_pr: "?new ''__proto__'' = None"
    by (simp_all add: Typed_def)
  have new_unset: "take 1 (getName q) \<noteq> ''$'' \<longrightarrow> ?new (getName q) = None"
    by (auto simp: Typed_def)
  have fresh: "take 1 (getName q) \<noteq> ''$'' \<longrightarrow>
          instanceAfter (Typed_assignFieldDefaults cf M pf pz proto ?new) (getName q) = None"
    using new_unset new_sp by (simp add: Typed_assignFieldDefaults_def new_cd frame)
  have returns: "(\<forall>f \<in> set (getProperties M D). carriesDefault f \<longrightarrow>
               getName f \<noteq> ''_setPropertyValue'' \<and> getName f \<noteq> ''__proto__'') \<longrightarrow>
          (\<exists>this'. Typed_assignFieldDefaults cf M pf pz proto ?new = Inr this')"
    using assignFieldDefaults_returns [OF new_cd new_sp new_pr] by blast
  show ?thesis
    using general fresh returns by blast
qed

theorem assignFieldDefaults_unset_witness:
  "instanceAfter (Typed_assignFieldDefaults (\<lambda>m this n v. Inr this) sampleModel (\<lambda>s. NaN) (\<lambda>s. 0) {} sampleCar)
     ''owner'' = None
   \<and> instanceAfter (Typed_assignFieldDefaults (\<lambda>m this n v. Inr this) sampleModel (\<lambda>s. NaN) (\<lambda>s. 0) {} sampleCar)
     ''colour'' = None
   \<and> (\<exists>this'. Typed_assignFieldDefaults (\<lambda>m this n v. Inr this) sampleModel (\<lambda>s. NaN) (\<lambda>s. 0) {} sampleCar
        = Inr this')"
proof -
  have q1: "RelationshipDeclaration ''owner'' ''Person'' \<in> set (getProperties sampleModel 0)"
    and q2: "Field ''colour'' ''String'' None \<in> set (getProperties sampleModel 0)"
    by (simp_all add: sampleModel_def)
  have nd1: "\<not> carriesDefault (RelationshipDeclaration ''owner'' ''Person'')"
    and nd2: "\<not> carriesDefault (Field ''colour'' ''String'' None)"
    by (simp_all add: carriesDefault_def truthyDefault_def)
  have o1: "\<forall>f \<in> set (getProperties sampleModel 0). carriesDefault f \<longrightarrow>
              getName f \<noteq> getName (RelationshipDeclaration ''owner'' ''Person'')"
    and o2: "\<forall>f \<in> set (getProperties sampleModel 0). carriesDefault f \<longrightarrow>
              getName f \<noteq> getName (Field ''colour'' ''String'' None)"
    by (simp_all add: sampleModel_def carriesDefault_def truthyDefault_def)
  have names: "\<forall>f \<in> set (getProperties sampleModel 0). carriesDefault f \<longrightarrow>
                  getName f \<noteq> ''_setPropertyValue'' \<and> getName f \<noteq> ''__proto__''"
    by (simp add: sampleModel_def)
  note inst1 = assignFieldDefaults_leaves_others_unset [OF q1 nd1 o1,
      where proto = "{}" and cf = "\<lambda>m this n v. Inr this" and pf = "\<lambda>s. NaN" and pz = "\<lambda>s. 0"
        and mm = "Obj 7" and ns = "Str ''org.acme''" and ty = "Str ''Car''"]
  note inst2 = assignFieldDefaults_leaves_others_unset [OF q2 nd2 o2,
      where proto = "{}" and cf = "\<lambda>m this n v. Inr this" and pf = "\<lambda>s. NaN" and pz = "\<lambda>s. 0"
        and mm = "Obj 7" and ns = "Str ''org.acme''" and ty = "Str ''Car''"]
  have a: "instanceAfter (Typed_assignFieldDefaults (\<lambda>m this n v. Inr this) sampleModel (\<lambda>s. NaN) (\<lambda>s. 0) {} sampleCar)
     ''owner'' = None"
    using inst1 by (simp add: sampleCar_def)
  have b: "instanceAfter (Typed_assignFieldDefaults (\<lambda>m this n v. Inr this) sampleModel (\<lambda>s. NaN) (\<lambda>s. 0) {} sampleCar)
     ''colour'' = None"
    using inst2 by (simp add: sampleCar_def)
  have c: "\<exists>this'. Typed_assignFieldDefaults (\<lambda>m this n v. Inr this) sampleModel (\<lambda>s. NaN) (\<lambda>s. 0) {} sampleCar
        = Inr this'"
    using inst1 names by (simp add: sampleCar_def)
  show ?thesis using a b c by blast
qed

subsection \<open>Instance-of\<close>

lemma walk_found:
  "superTypeChain M n d = Some e \<Longrightarrow> getFullyQualifiedName M e = fqt \<Longrightarrow>
   walkSuperTypes M fqt (Some d) = Some True"
proof (induction n arbitrary: d)
  case 0
  then show ?case by (simp add: walkSuperTypes.simps)
next
  case (Suc n)
  then obtain s where s: "getSuperTypeDeclaration M d = Some s" "superTypeChain M n s = Some e"
    by (auto split: option.splits)
  then have "walkSuperTypes M fqt (Some s) = Some True"
    using Suc by blast
  then show ?case
    using s by (subst walkSuperTypes.simps) simp
qed

lemma walk_not_found:
  "superTypeChain M n d = None \<Longrightarrow>
   \<forall>k e. superTypeChain M k d = Some e \<longrightarrow> getFullyQualifiedName M e \<noteq> fqt \<Longrightarrow>
   walkSuperTypes M fqt (Some d) = Some False"
proof (induction n arbitrary: d)
  case 0
  then show ?case by simp
next
  case (Suc n)
  have own: "getFullyQualifiedName M d \<noteq> fqt"
    using Suc.prems(2) [rule_format, of 0 d] by simp
  show ?case
  proof (cases "getSuperTypeDeclaration M d")
    case None
    then show ?thesis
      using own by (subst walkSuperTypes.simps) (simp add: walkSuperTypes.simps)
  next
    case (Some s)
    have "superTypeChain M n s = None"
      using Suc.prems(1) Some by simp
    moreover have "\<forall>k e. superTypeChain M k s = Some e \<longrightarrow> getFullyQualifiedName M e \<noteq> fqt"
    proof (intro allI impI)
      fix k e assume "superTypeChain M k s = Some e"
      then have "superTypeChain M (Suc k) d = Some e" using Some by simp
      then show "getFullyQualifiedName M e \<noteq> fqt" using Suc.prems(2) by blast
    qed
    ultimately have "walkSuperTypes M fqt (Some s) = Some False"
      by (rule Suc.IH)
    then show ?thesis
      using own Some by (subst walkSuperTypes.simps) simp
  qed
qed

text \<open>
  On a chain that returns to itself without meeting the name, the loop never returns:
  the end of the chain is what makes the answer \<open>false\<close>.
\<close>

lemma walk_cycle_aux:
  assumes "walkSuperTypes M fqt s = Some b"
  shows "\<forall>d. s = Some d \<longrightarrow> getSuperTypeDeclaration M d = Some d \<longrightarrow>
             getFullyQualifiedName M d \<noteq> fqt \<longrightarrow> False"
  by (rule walkSuperTypes.raw_induct
        [where P = "\<lambda>M fqt s b. \<forall>d. s = Some d \<longrightarrow> getSuperTypeDeclaration M d = Some d \<longrightarrow>
                                   getFullyQualifiedName M d \<noteq> fqt \<longrightarrow> False", OF _ assms])
     (auto split: if_splits)

lemma walk_cycle:
  assumes "getSuperTypeDeclaration M d = Some d" and "getFullyQualifiedName M d \<noteq> fqt"
  shows "walkSuperTypes M fqt (Some d) = None"
proof (rule ccontr)
  assume "walkSuperTypes M fqt (Some d) \<noteq> None"
  then obtain b where "walkSuperTypes M fqt (Some d) = Some b" by auto
  then show False
    using assms walk_cycle_aux by blast
qed

text \<open>
  C1. For an instance bound to the class declaration \<open>D\<close>, \<open>_instanceOf fqt\<close> returns
  true when the fully-qualified name of \<open>D\<close> is \<open>fqt\<close>; true when some declaration reached
  from \<open>D\<close> by calls of \<open>getSuperTypeDeclaration\<close> has the name \<open>fqt\<close>; and false when the
  chain ends and no declaration on it has the name. In particular it is true of the name
  of the super-type of \<open>D\<close>.
\<close>

theorem instanceOf_walks_super_type_chain:
  assumes cd: "Typed_getClassDeclaration proto this = Decl D"
  shows "(getFullyQualifiedName M D = fqt \<longrightarrow> Typed_instanceOf M proto this fqt = Some (Inr True))
    \<and> ((\<exists>n d. superTypeChain M n D = Some d \<and> getFullyQualifiedName M d = fqt) \<longrightarrow>
          Typed_instanceOf M proto this fqt = Some (Inr True))
    \<and> ((\<exists>n. superTypeChain M n D = None) \<and>
        (\<forall>n d. superTypeChain M n D = Some d \<longrightarrow> getFullyQualifiedName M d \<noteq> fqt) \<longrightarrow>
          Typed_instanceOf M proto this fqt = Some (Inr False))
    \<and> (\<forall>S. getSuperTypeDeclaration M D = Some S \<longrightarrow>
          Typed_instanceOf M proto this (getFullyQualifiedName M S) = Some (Inr True))"
proof -
  have unfold: "\<And>t. walkSuperTypes M t (Some D) =
        (if getFullyQualifiedName M D = t then Some True
         else walkSuperTypes M t (getSuperTypeDeclaration M D))"
    by (subst walkSuperTypes.simps) simp
  have eq: "\<And>t. Typed_instanceOf M proto this t = map_option Inr (walkSuperTypes M t (Some D))"
    using cd by (simp add: Typed_instanceOf_def unfold)
  have own: "getFullyQualifiedName M D = fqt \<longrightarrow> Typed_instanceOf M proto this fqt = Some (Inr True)"
    by (simp add: eq unfold)
  have found: "(\<exists>n d. superTypeChain M n D = Some d \<and> getFullyQualifiedName M d = fqt) \<longrightarrow>
          Typed_instanceOf M proto this fqt = Some (Inr True)"
    by (auto simp: eq dest: walk_found)
  have absent: "(\<exists>n. superTypeChain M n D = None) \<and>
        (\<forall>n d. superTypeChain M n D = Some d \<longrightarrow> getFullyQualifiedName M d \<noteq> fqt) \<longrightarrow>
          Typed_instanceOf M proto this fqt = Some (Inr False)"
  proof (intro impI, elim conjE exE)
    fix n
    assume "superTypeChain M n D = None"
      and "\<forall>n d. superTypeChain M n D = Some d \<longrightarrow> getFullyQualifiedName M d \<noteq> fqt"
    then have "walkSuperTypes M fqt (Some D) = Some False"
      by (rule walk_not_found)
    then show "Typed_instanceOf M proto this fqt = Some (Inr False)"
      by (simp add: eq)
  qed
  have super: "\<forall>S. getSuperTypeDeclaration M D = Some S \<longrightarrow>
          Typed_instanceOf M proto this (getFullyQualifiedName M S) = Some (Inr True)"
  proof (intro allI impI)
    fix S assume S: "getSuperTypeDeclaration M D = Some S"
    then have "superTypeChain M (Suc 0) D = Some S" by simp
    then have "walkSuperTypes M (getFullyQualifiedName M S) (Some D) = Some True"
      by (rule walk_found) simp
    then show "Typed_instanceOf M proto this (getFullyQualifiedName M S) = Some (Inr True)"
      by (simp add: eq)
  qed
  show ?thesis
    using own found absent super by blast
qed

theorem instanceOf_witness:
  "Typed_instanceOf sampleModel {} sampleCar ''org.acme.Car'' = Some (Inr True)
   \<and> Typed_instanceOf sampleModel {} sampleCar ''org.acme.Asset'' = Some (Inr True)
   \<and> Typed_instanceOf sampleModel {} sampleCar ''org.acme.Boat'' = Some (Inr False)
   \<and> Typed_instanceOf sampleModel {} sampleCar ''org.acme.Vehicle'' = Some (Inr True)"
proof -
  note inst = instanceOf_walks_super_type_chain [OF sampleCar_decl, of sampleModel]
  have own: "getFullyQualifiedName sampleModel 0 = ''org.acme.Car''"
    by (simp add: sampleModel_def)
  have up: "superTypeChain sampleModel (Suc (Suc 0)) 0 = Some 2
            \<and> getFullyQualifiedName sampleModel 2 = ''org.acme.Asset''"
    by (simp add: sampleModel_def)
  have ends: "superTypeChain sampleModel (Suc (Suc (Suc 0))) 0 = None"
    by (simp add: sampleModel_def)
  have none: "\<forall>n d. superTypeChain sampleModel n 0 = Some d \<longrightarrow>
                getFullyQualifiedName sampleModel d \<noteq> ''org.acme.Boat''"
    by (simp add: sampleModel_def)
  have sup: "getSuperTypeDeclaration sampleModel 0 = Some 1
             \<and> getFullyQualifiedName sampleModel 1 = ''org.acme.Vehicle''"
    by (simp add: sampleModel_def)
  have 1: "Typed_instanceOf sampleModel {} sampleCar ''org.acme.Car'' = Some (Inr True)"
    using inst [of "''org.acme.Car''"] own by blast
  have 2: "Typed_instanceOf sampleModel {} sampleCar ''org.acme.Asset'' = Some (Inr True)"
    using inst [of "''org.acme.Asset''"] up by blast
  have 3: "Typed_instanceOf sampleModel {} sampleCar ''org.acme.Boat'' = Some (Inr False)"
    using inst [of "''org.acme.Boat''"] ends none by blast
  have 4: "Typed_instanceOf sampleModel {} sampleCar ''org.acme.Vehicle'' = Some (Inr True)"
    using inst [of "''org.acme.Vehicle''"] sup by metis
  show ?thesis using 1 2 3 4 by simp
qed

section \<open>Theorems about introspect/metamodel.js\<close>

subsection \<open>Reserved property names\<close>

lemma classFields_reserved_first:
  "hasReservedName thing \<Longrightarrow>
   classFields fmt (thing # rest) acc = Inl (TypeError ''Cannot read property modelFile of undefined'')"
  by (simp add: this_modelFile_def thisValue_def)

lemma classFields_reserved:
  "thing \<in> set things \<Longrightarrow> hasReservedName thing \<Longrightarrow> \<exists>e. classFields fmt things acc = Inl e"
proof (induction things arbitrary: acc)
  case Nil
  then show ?case by simp
next
  case (Cons x xs)
  show ?case
  proof (cases "hasReservedName x")
    case True
    then show ?thesis using classFields_reserved_first by blast
  next
    case False
    with Cons.prems have "thing \<in> set xs" by auto
    then have IH: "\<And>acc. \<exists>e. classFields fmt xs acc = Inl e"
      using Cons.IH Cons.prems(2) by blast
    show ?thesis
      using False IH
      by (auto simp: this_modelFile_def thisValue_def split: sum.splits)
  qed
qed

lemma modelDeclarations_fails:
  "d \<in> set ds \<Longrightarrow> declToMetaModel fmt d = Inl e \<Longrightarrow> \<exists>e'. modelDeclarations fmt ds acc = Inl e'"
proof (induction ds arbitrary: acc)
  case Nil
  then show ?case by simp
next
  case (Cons x xs)
  show ?case
  proof (cases "declToMetaModel fmt x")
    case (Inl a)
    then show ?thesis by simp
  next
    case (Inr b)
    with Cons.prems have "d \<in> set xs" by auto
    then show ?thesis
      using Cons.IH Cons.prems(2) Inr by simp
  qed
qed

text \<open>
  C4. When a property node of a declaration node has a name that begins with \<open>$\<close>,
  \<open>declToMetaModel\<close> fails on the declaration; the round of the loop that meets the
  property fails whatever the kind of the property, before the kind is looked at; and
  \<open>astToMetaModel\<close> fails on every model that contains the declaration, so that nothing
  is handed on.
\<close>

theorem reserved_name_rejected:
  assumes thing: "thing \<in> set (c_body ast)"
    and id: "p_id thing = Some i"
    and sigil: "take 1 (name i) = ''$''"
  shows "(\<exists>e. declToMetaModel fmt ast = Inl e)
    \<and> (\<forall>kind rest acc. \<exists>e. classFields fmt (thing\<lparr>p_type := kind\<rparr> # rest) acc = Inl e)
    \<and> (\<forall>m. ast \<in> set (m_body m) \<longrightarrow> (\<exists>e. astToMetaModel fmt m = Inl e))"
proof -
  have res: "hasReservedName thing"
    using id sigil by (auto simp: hasReservedName_def)
  have "\<exists>e. classFields fmt (c_body ast) [] = Inl e"
    using thing res by (rule classFields_reserved)
  then have decl: "\<exists>e. declToMetaModel fmt ast = Inl e"
    by (auto simp: declToMetaModel_def split: option.splits)
  have step: "\<forall>kind rest acc. \<exists>e. classFields fmt (thing\<lparr>p_type := kind\<rparr> # rest) acc = Inl e"
  proof (intro allI)
    fix kind rest acc
    have "hasReservedName (thing\<lparr>p_type := kind\<rparr>)"
      using res by (simp add: hasReservedName_def)
    then show "\<exists>e. classFields fmt (thing\<lparr>p_type := kind\<rparr> # rest) acc = Inl e"
      using classFields_reserved_first by blast
  qed
  have whole: "\<forall>m. ast \<in> set (m_body m) \<longrightarrow> (\<exists>e. astToMetaModel fmt m = Inl e)"
  proof (intro allI impI)
    fix m :: model_ast assume "ast \<in> set (m_body m)"
    moreover obtain e where "declToMetaModel fmt ast = Inl e" using decl by blast
    ultimately have "\<exists>e'. modelDeclarations fmt (m_body m) [] = Inl e'"
      by (rule modelDeclarations_fails)
    then show "\<exists>e. astToMetaModel fmt m = Inl e"
      by (auto simp: astToMetaModel_def)
  qed
  show ?thesis using decl step whole by blast
qed

theorem reserved_name_witness:
  "isl (declToMetaModel sampleFormatter
          (sampleDecl\<lparr>c_body := [sampleField, sampleField\<lparr>p_id := Some (Identifier ''$class'')\<rparr>]\<rparr>))
   \<and> isl (astToMetaModel sampleFormatter
          \<lparr> m_namespace = ''org.acme'', m_imports = None,
            m_body = [sampleDecl\<lparr>c_body := [sampleField, sampleField\<lparr>p_id := Some (Identifier ''$class'')\<rparr>]\<rparr>] \<rparr>)"
proof -
  let ?thing = "sampleField\<lparr>p_id := Some (Identifier ''$class'')\<rparr>"
  let ?ast = "sampleDecl\<lparr>c_body := [sampleField, ?thing]\<rparr>"
  let ?m = "\<lparr> m_namespace = ''org.acme'', m_imports = None, m_body = [?ast] \<rparr>"
  have a: "?thing \<in> set (c_body ?ast)" by simp
  have b: "p_id ?thing = Some (Identifier ''$class'')" by simp
  have c: "take 1 (name (Identifier ''$class'')) = ''$''" by simp
  have d: "?ast \<in> set (m_body ?m)" by simp
  note inst = reserved_name_rejected [OF a b c, of sampleFormatter]
  have "\<exists>e. declToMetaModel sampleFormatter ?ast = Inl e"
    using inst by blast
  moreover have "\<exists>e. astToMetaModel sampleFormatter ?m = Inl e"
    using inst d by blast
  ultimately show ?thesis by auto
qed

subsection \<open>Declaration kinds\<close>

lemma declClass_unrecognized: "type \<notin> recognizedKinds \<Longrightarrow> declClass type = None"
  by (simp add: declClass_def recognizedKinds_def)

lemma declClass_recognized:
  "type \<in> recognizedKinds \<Longrightarrow> declClass type = Some (''concerto.metamodel.'' @ type)"
  by (auto simp: declClass_def recognizedKinds_def)

text \<open>
  The dispatch on the kind of a declaration node. A kind that is none of the six ends in
  an IllegalModelException whose message is formatted from the kind name and whose file
  location is missing; a node of one of the six kinds gets the tag \<open>concerto.metamodel.\<close>
  followed by the kind, and a declaration is returned whenever the node has an id and its
  properties convert.
\<close>

lemma declToMetaModel_dispatch:
  "(c_type ast \<notin> recognizedKinds \<longrightarrow>
      (\<exists>mf. declToMetaModel fmt ast =
         Inl (IllegalModelException
                (fmt ''modelfile-constructor-unrecmodelelem'' [(''type'', c_type ast)]) mf None)))
   \<and> (c_type ast \<in> recognizedKinds \<longrightarrow>
      (\<forall>decl. declToMetaModel fmt ast = Inr decl \<longrightarrow>
         dm_class decl = ''concerto.metamodel.'' @ c_type ast)
      \<and> (\<forall>i fs. c_id ast = Some i \<and> classFields fmt (c_body ast) [] = Inr fs \<longrightarrow>
           (\<exists>decl. declToMetaModel fmt ast = Inr decl \<and> dm_fields decl = fs)))"
  by (auto simp: declToMetaModel_def declClass_unrecognized declClass_recognized
      split: option.splits sum.splits)

lemma declToMetaModel_dispatch_sample:
  "(\<exists>mf. declToMetaModel sampleFormatter (sampleDecl\<lparr>c_type := ''ScalarDeclaration''\<rparr>) =
       Inl (IllegalModelException ''modelfile-constructor-unrecmodelelemScalarDeclaration'' mf None))
   \<and> (\<exists>decl. declToMetaModel sampleFormatter sampleDecl = Inr decl
         \<and> dm_class decl = ''concerto.metamodel.AssetDeclaration'')"
proof -
  have un: "c_type (sampleDecl\<lparr>c_type := ''ScalarDeclaration''\<rparr>) \<notin> recognizedKinds"
    by (simp add: recognizedKinds_def)
  have 1: "\<exists>mf. declToMetaModel sampleFormatter (sampleDecl\<lparr>c_type := ''ScalarDeclaration''\<rparr>) =
       Inl (IllegalModelException ''modelfile-constructor-unrecmodelelemScalarDeclaration'' mf None)"
    using declToMetaModel_dispatch [of "sampleDecl\<lparr>c_type := ''ScalarDeclaration''\<rparr>" sampleFormatter] un
    by (simp add: sampleFormatter_def)
  have rec: "c_type sampleDecl \<in> recognizedKinds" "c_type sampleDecl = ''AssetDeclaration''"
    by (simp_all add: recognizedKinds_def sampleDecl_def)
  have id: "c_id sampleDecl = Some (Identifier ''Car'')"
    by (simp add: sampleDecl_def)
  have "\<exists>fs. classFields sampleFormatter (c_body sampleDecl) [] = Inr fs"
    by (simp add: sampleDecl_def sampleField_def fieldToMetaModel_def hasReservedName_def)
  then obtain decl where "declToMetaModel sampleFormatter sampleDecl = Inr decl"
    using declToMetaModel_dispatch [of sampleDecl sampleFormatter] rec(1) id by blast
  moreover from this have "dm_class decl = ''concerto.metamodel.AssetDeclaration''"
    using declToMetaModel_dispatch [of sampleDecl sampleFormatter] rec by simp
  ultimately show ?thesis using 1 by blast
qed

text \<open>
  C5. The claim asks that the error for an unrecognized declaration kind carry the kind
  name and the source location. The throw of \<open>declToMetaModel\<close> passes the formatted
  message and \<open>this\<close> and nothing else, where the throws for a property, in the same
  function, pass \<open>thing.location\<close>: on the node below, which has a location, the exception
  has the kind name in its message and no file location.
\<close>

theorem unrecognized_kind_error_lacks_location:
  "declToMetaModel (\<lambda>key values. key)
     \<lparr> c_type = ''ScalarDeclaration'', c_id = Some (Identifier ''Sku''), c_abstract = Null,
       c_classExtension = None, c_idField = None, c_body = [],
       c_location = Some (Location 3 1) \<rparr>
   = Inl (IllegalModelException ''modelfile-constructor-unrecmodelelem'' Undefined None)"
  by (simp add: declToMetaModel_def declClass_def thisValue_def)

subsection \<open>Properties\<close>

text \<open>
  C6. On a field node with an id and a property type, \<open>fieldToMetaModel\<close> returns a field
  with the name of the node and the truth values of its \<open>array\<close> and \<open>optional\<close>
  attributes; a primitive type gets the tag of its own, \<open>concerto.metamodel.\<close>, the type
  name and \<open>FieldDeclaration\<close>, and no type reference; every other type name gets the
  tag ObjectFieldDeclaration and a TypeIdentifier with that name.
\<close>

theorem fieldToMetaModel_tags:
  assumes id: "p_id ast = Some i" and pt: "p_propertyType ast = Some t"
  shows "\<exists>field. fieldToMetaModel ast = Inr field
     \<and> fm_name field = name i
     \<and> fm_isArray field = truthy (p_array ast)
     \<and> fm_isOptional field = truthy (p_optional ast)
     \<and> (name t \<in> primitiveKinds \<longrightarrow>
          fm_class field = ''concerto.metamodel.'' @ name t @ ''FieldDeclaration''
          \<and> fm_type field = None)
     \<and> (name t \<notin> primitiveKinds \<longrightarrow>
          fm_class field = ''concerto.metamodel.ObjectFieldDeclaration''
          \<and> fm_type field = Some \<lparr> ti_class = ''concerto.metamodel.TypeIdentifier'',
                                    ti_name = name t \<rparr>)"
  using id pt
  by (auto simp: fieldToMetaModel_def primitiveKinds_def Let_def)

theorem fieldToMetaModel_witness:
  "(case fieldToMetaModel sampleField of
      Inl e \<Rightarrow> None
    | Inr f \<Rightarrow> Some (fm_class f, fm_name f, fm_isArray f, fm_isOptional f, fm_type f))
     = Some (''concerto.metamodel.IntegerFieldDeclaration'', ''wheels'', False, True, None)
   \<and> (case fieldToMetaModel (sampleField\<lparr>p_propertyType := Some (Identifier ''Engine'')\<rparr>) of
      Inl e \<Rightarrow> None
    | Inr f \<Rightarrow> Some (fm_class f, fm_name f, fm_isArray f, fm_isOptional f, fm_type f))
     = Some (''concerto.metamodel.ObjectFieldDeclaration'', ''wheels'', False, True,
             Some \<lparr> ti_class = ''concerto.metamodel.TypeIdentifier'', ti_name = ''Engine'' \<rparr>)"
proof -
  have id: "p_id sampleField = Some (Identifier ''wheels'')"
    and pt: "p_propertyType sampleField = Some (Identifier ''Integer'')"
    by (simp_all add: sampleField_def)
  have id': "p_id (sampleField\<lparr>p_propertyType := Some (Identifier ''Engine'')\<rparr>) = Some (Identifier ''wheels'')"
    and pt': "p_propertyType (sampleField\<lparr>p_propertyType := Some (Identifier ''Engine'')\<rparr>) = Some (Identifier ''Engine'')"
    by (simp_all add: sampleField_def)
  have 1: "(case fieldToMetaModel sampleField of
      Inl e \<Rightarrow> None
    | Inr f \<Rightarrow> Some (fm_class f, fm_name f, fm_isArray f, fm_isOptional f, fm_type f))
     = Some (''concerto.metamodel.IntegerFieldDeclaration'', ''wheels'', False, True, None)"
    using fieldToMetaModel_tags [OF id pt]
    by (auto simp: primitiveKinds_def sampleField_def)
  have 2: "(case fieldToMetaModel (sampleField\<lparr>p_propertyType := Some (Identifier ''Engine'')\<rparr>) of
      Inl e \<Rightarrow> None
    | Inr f \<Rightarrow> Some (fm_class f, fm_name f, fm_isArray f, fm_isOptional f, fm_type f))
     = Some (''concerto.metamodel.ObjectFieldDeclaration'', ''wheels'', False, True,
             Some \<lparr> ti_class = ''concerto.metamodel.TypeIdentifier'', ti_name = ''Engine'' \<rparr>)"
    using fieldToMetaModel_tags [OF id' pt']
    by (auto simp: primitiveKinds_def sampleField_def)
  show ?thesis using 1 2 by simp
qed

text \<open>
  C9. On an enum member node with an id, \<open>enumPropertyToMetaModel\<close> returns the tag
  EnumFieldDeclaration, the name of the member, both flags false and no type reference,
  whatever the \<open>array\<close>, \<open>optional\<close> and \<open>propertyType\<close> attributes of the node hold.
\<close>

theorem enumPropertyToMetaModel_shape:
  assumes id: "p_id ast = Some i"
  shows "enumPropertyToMetaModel (ast\<lparr>p_array := a, p_optional := opt, p_propertyType := pt\<rparr>) =
           Inr \<lparr> fm_class = ''concerto.metamodel.EnumFieldDeclaration'', fm_name = name i,
                 fm_isArray = False, fm_isOptional = False, fm_type = None \<rparr>
       \<and> enumPropertyToMetaModel ast =
           Inr \<lparr> fm_class = ''concerto.metamodel.EnumFieldDeclaration'', fm_name = name i,
                 fm_isArray = False, fm_isOptional = False, fm_type = None \<rparr>"
  using id by (simp add: enumPropertyToMetaModel_def)

theorem enumPropertyToMetaModel_witness:
  "enumPropertyToMetaModel
     \<lparr> p_type = ''EnumPropertyDeclaration'', p_id = Some (Identifier ''RED''),
       p_propertyType = Some (Identifier ''Colour''), p_array = Bool True,
       p_optional = Str ''optional'', p_location = None \<rparr>
   = Inr \<lparr> fm_class = ''concerto.metamodel.EnumFieldDeclaration'', fm_name = ''RED'',
           fm_isArray = False, fm_isOptional = False, fm_type = None \<rparr>"
proof -
  let ?ast = "\<lparr> p_type = ''EnumPropertyDeclaration'', p_id = Some (Identifier ''RED''),
       p_propertyType = Some (Identifier ''Colour''), p_array = Bool True,
       p_optional = Str ''optional'', p_location = None \<rparr>"
  have "p_id ?ast = Some (Identifier ''RED'')" by simp
  from enumPropertyToMetaModel_shape [OF this] show ?thesis by simp
qed

end
